theory Spec2Isabelle
  imports
    Complex_Main
    "HOL-Library.Multiset"
    "HOL-Library.Char_ord"
    "HOL-Library.List_Lexorder"
    "HOL-Library.Option_ord"
begin

section \<open>Shared vocabulary of the three services\<close>

text \<open>
  \<^verbatim>\<open>Energy.py\<close>, \<^verbatim>\<open>app.py\<close> and \<^verbatim>\<open>sneakers.py\<close> are three FastAPI services over one
  SQLite table each. A table is the list of its rows in the order in which the store
  yields them; a handler takes the table and returns the table it has committed together
  with its result. A handler that raises commits nothing and returns the table it got.
  The model ends where the handler returns: the check of the returned entity against the
  \<^verbatim>\<open>response_model\<close>, which FastAPI makes afterwards, is not part of it.

  Every column but the primary key is declared without \<^verbatim>\<open>nullable=False\<close>, so it holds
  \<open>None\<close> (SQL NULL) or a value. \<^verbatim>\<open>Float\<close> values are modelled by the real numbers they
  denote.
\<close>

datatype error =
    HTTPException nat string
  | RequestValidationError
  | AttributeError
  | TypeError

text \<open>
  A field of a pydantic update model (\<^verbatim>\<open>Optional[T] = None\<close>) read through
  \<^verbatim>\<open>dict(exclude_unset=True)\<close>: the request left it out, or it supplied \<^verbatim>\<open>null\<close> or a value.
\<close>

datatype 'a field = Unset | Supplied "'a option"

definition setattr_field :: "'a field \<Rightarrow> 'a option \<Rightarrow> 'a option" where
  "setattr_field f old = (case f of Unset \<Rightarrow> old | Supplied v \<Rightarrow> v)"

text \<open>Python truth of an optional query parameter: \<^verbatim>\<open>if filter_brand:\<close>, \<^verbatim>\<open>if filter_volume:\<close>.\<close>

definition truthy_str :: "string option \<Rightarrow> bool" where
  "truthy_str p = (case p of None \<Rightarrow> False | Some s \<Rightarrow> s \<noteq> [])"

definition truthy_int :: "int option \<Rightarrow> bool" where
  "truthy_int p = (case p of None \<Rightarrow> False | Some n \<Rightarrow> n \<noteq> 0)"

text \<open>
  \<^verbatim>\<open>Column.contains(search)\<close> is evaluated by the store (a \<^verbatim>\<open>LIKE\<close> expression); the
  operator on two strings is a parameter \<open>contains\<close> of the list handlers. On a NULL column
  the comparison is NULL and the row is not selected.
\<close>

definition column_contains ::
  "(string \<Rightarrow> string \<Rightarrow> bool) \<Rightarrow> string option \<Rightarrow> string option \<Rightarrow> bool" where
  "column_contains contains col search =
     (case col of None \<Rightarrow> False
      | Some c \<Rightarrow> (case search of None \<Rightarrow> False | Some s \<Rightarrow> contains c s))"



text \<open>
  \<^verbatim>\<open>getattr(Model, sort_by, None)\<close> yields a column, which has \<^verbatim>\<open>asc()\<close> and \<^verbatim>\<open>desc()\<close>,
  or some other attribute of the class, which has neither, or \<^verbatim>\<open>None\<close>.
\<close>

datatype 'c attr = Column 'c | NotColumn


text \<open>\<^verbatim>\<open>str.lower\<close> on the letters that matter for \<^verbatim>\<open>sort_order.lower() == "desc"\<close>.\<close>

definition lower_char :: "char \<Rightarrow> char" where
  "lower_char c =
     (case map_of (zip ''ABCDEFGHIJKLMNOPQRSTUVWXYZ'' ''abcdefghijklmnopqrstuvwxyz'') c of
        None \<Rightarrow> c | Some l \<Rightarrow> l)"

definition lower :: "string \<Rightarrow> string" where
  "lower s = map lower_char s"

text \<open>
  \<^verbatim>\<open>order_by(column.asc())\<close> and \<^verbatim>\<open>order_by(column.desc())\<close>: NULL sorts below every value, as
  \<open>None\<close> does in the order on \<open>option\<close>. The store leaves the order of rows with equal keys
  open; the model keeps them in table order (ascending) or its reverse (descending).
\<close>

definition order_by :: "('r \<Rightarrow> 'k::linorder) \<Rightarrow> bool \<Rightarrow> 'r list \<Rightarrow> 'r list" where
  "order_by key desc q = (if desc then rev (sort_key key q) else sort_key key q)"

text \<open>
  \<^verbatim>\<open>query.offset(skip).limit(limit)\<close> on SQLite: a negative offset counts as zero, a negative
  limit as no limit.
\<close>

definition query_offset :: "int \<Rightarrow> 'r list \<Rightarrow> 'r list" where
  "query_offset skip q = drop (nat skip) q"

definition query_limit :: "int \<Rightarrow> 'r list \<Rightarrow> 'r list" where
  "query_limit n q = (if n < 0 then q else take (nat n) q)"

text \<open>\<^verbatim>\<open>db.query(Model).filter(Model.id == i).first()\<close>.\<close>

definition first_with_id :: "('r \<Rightarrow> int) \<Rightarrow> int \<Rightarrow> 'r list \<Rightarrow> 'r option" where
  "first_with_id key i db = find (\<lambda>r. key r = i) db"

text \<open>\<^verbatim>\<open>db.commit()\<close> after attribute writes on a loaded row: an UPDATE by primary key.\<close>

definition commit_row :: "('r \<Rightarrow> int) \<Rightarrow> 'r \<Rightarrow> 'r list \<Rightarrow> 'r list" where
  "commit_row key r' db = map (\<lambda>r. if key r = key r' then r' else r) db"

text \<open>\<^verbatim>\<open>db.delete(row); db.commit()\<close>: a DELETE by primary key.\<close>

definition delete_row :: "('r \<Rightarrow> int) \<Rightarrow> int \<Rightarrow> 'r list \<Rightarrow> 'r list" where
  "delete_row key i db = filter (\<lambda>r. key r \<noteq> i) db"

text \<open>
  The id of an inserted row is chosen by the store: SQLite takes one more than the largest
  id in the table, and 1 for an empty table.
\<close>

definition next_id :: "('r \<Rightarrow> int) \<Rightarrow> 'r list \<Rightarrow> int" where
  "next_id key db = fold max (map key db) 0 + 1"


section \<open>Energy drinks (\<^verbatim>\<open>Energy.py\<close>)\<close>

record energy_drink =
  ed_id :: int
  ed_brand :: "string option"
  ed_name :: "string option"
  ed_volume_ml :: "int option"
  ed_price :: "int option"
  ed_stock :: "int option"


record energy_drink_update =
  edu_brand :: "string field"
  edu_name :: "string field"
  edu_volume_ml :: "int field"
  edu_price :: "int field"
  edu_stock :: "int field"

datatype energy_column = EdId | EdBrand | EdName | EdVolumeMl | EdPrice | EdStock

text \<open>
  The attributes of class \<^verbatim>\<open>EnergyDrink\<close>: its six columns and \<^verbatim>\<open>__tablename__\<close>, a string.
  \<open>base\<close> tells under which other names the declarative base class provides an attribute
  that is not \<^verbatim>\<open>None\<close>; none of those is a column.
\<close>

definition getattr_EnergyDrink :: "(string \<Rightarrow> bool) \<Rightarrow> string \<Rightarrow> energy_column attr option" where
  "getattr_EnergyDrink base n =
     (if n = ''id'' then Some (Column EdId)
      else if n = ''brand'' then Some (Column EdBrand)
      else if n = ''name'' then Some (Column EdName)
      else if n = ''volume_ml'' then Some (Column EdVolumeMl)
      else if n = ''price'' then Some (Column EdPrice)
      else if n = ''stock'' then Some (Column EdStock)
      else if n = ''__tablename__'' then Some NotColumn
      else if base n then Some NotColumn
      else None)"

fun order_by_energy :: "energy_column \<Rightarrow> bool \<Rightarrow> energy_drink list \<Rightarrow> energy_drink list" where
  "order_by_energy EdId desc q = order_by ed_id desc q"
| "order_by_energy EdBrand desc q = order_by ed_brand desc q"
| "order_by_energy EdName desc q = order_by ed_name desc q"
| "order_by_energy EdVolumeMl desc q = order_by ed_volume_ml desc q"
| "order_by_energy EdPrice desc q = order_by ed_price desc q"
| "order_by_energy EdStock desc q = order_by ed_stock desc q"

text \<open>Lines 75--81 of \<^verbatim>\<open>read_energy_drinks\<close>: the three \<^verbatim>\<open>if\<close>s that add WHERE clauses.\<close>

definition filter_energy ::
  "(string \<Rightarrow> string \<Rightarrow> bool) \<Rightarrow> string option \<Rightarrow> int option \<Rightarrow> string option \<Rightarrow>
     energy_drink list \<Rightarrow> energy_drink list" where
  "filter_energy contains filter_brand filter_volume search query =
     (let q1 = (if truthy_str filter_brand
                then filter (\<lambda>r. ed_brand r = filter_brand) query else query);
          q2 = (if truthy_int filter_volume
                then filter (\<lambda>r. ed_volume_ml r = filter_volume) q1 else q1)
      in if truthy_str search
         then filter (\<lambda>r. column_contains contains (ed_brand r) search
                         \<or> column_contains contains (ed_name r) search) q2
         else q2)"

text \<open>Lines 83--90: the sort, which raises where the attribute found is not a column.\<close>

definition sort_energy ::
  "(string \<Rightarrow> bool) \<Rightarrow> string option \<Rightarrow> string \<Rightarrow> energy_drink list \<Rightarrow>
     error + energy_drink list" where
  "sort_energy base sort_by sort_order query =
     (case sort_by of
        None \<Rightarrow> Inr query
      | Some n \<Rightarrow>
          if n = [] then Inr query
          else (case getattr_EnergyDrink base n of
                  None \<Rightarrow> Inr query
                | Some NotColumn \<Rightarrow> Inl AttributeError
                | Some (Column c) \<Rightarrow> Inr (order_by_energy c (lower sort_order
                      = ''desc'') query)))"

definition read_energy_drinks ::
  "(string \<Rightarrow> string \<Rightarrow> bool) \<Rightarrow> (string \<Rightarrow> bool) \<Rightarrow> energy_drink list \<Rightarrow>
     int \<Rightarrow> int \<Rightarrow> string option \<Rightarrow> string \<Rightarrow> string option \<Rightarrow> int option \<Rightarrow> string option \<Rightarrow>
     error + energy_drink list" where
  "read_energy_drinks contains base db skip limit sort_by sort_order
        filter_brand filter_volume search =
     (case sort_energy base sort_by sort_order
             (filter_energy contains filter_brand filter_volume search db) of
        Inl e \<Rightarrow> Inl e
      | Inr query \<Rightarrow> Inr (query_limit limit (query_offset skip query)))"

definition read_energy_drink :: "energy_drink list \<Rightarrow> int \<Rightarrow> error + energy_drink" where
  "read_energy_drink db drink_id =
     (case first_with_id ed_id drink_id db of
        None \<Rightarrow> Inl (HTTPException 404 ''Energy drink not found'')
      | Some drink \<Rightarrow> Inr drink)"


definition update_energy_drink ::
  "energy_drink list \<Rightarrow> int \<Rightarrow> energy_drink_update \<Rightarrow>
     energy_drink list \<times> (error + energy_drink)" where
  "update_energy_drink db drink_id drink =
     (case first_with_id ed_id drink_id db of
        None \<Rightarrow> (db, Inl (HTTPException 404 ''Energy drink not found''))
      | Some db_drink \<Rightarrow>
          (let d = db_drink\<lparr>ed_brand := setattr_field (edu_brand drink) (ed_brand db_drink),
                            ed_name := setattr_field (edu_name drink) (ed_name db_drink),
                            ed_volume_ml := setattr_field (edu_volume_ml drink) (ed_volume_ml db_drink),
                            ed_price := setattr_field (edu_price drink) (ed_price db_drink),
                            ed_stock := setattr_field (edu_stock drink) (ed_stock db_drink)\<rparr>
           in (commit_row ed_id d db, Inr d)))"



section \<open>Sneakers (\<^verbatim>\<open>sneakers.py\<close>)\<close>

record sneaker =
  sn_id :: int
  sn_brand :: "string option"
  sn_model :: "string option"
  sn_price :: "int option"
  sn_rating :: "real option"

record sneaker_create =
  snc_brand :: string
  snc_model :: string
  snc_price :: int

record sneaker_update =
  snu_brand :: "string field"
  snu_model :: "string field"
  snu_price :: "int field"
  snu_rating :: "real field"

datatype sneaker_column = SnId | SnBrand | SnModel | SnPrice | SnRating

definition getattr_Sneaker :: "(string \<Rightarrow> bool) \<Rightarrow> string \<Rightarrow> sneaker_column attr option" where
  "getattr_Sneaker base n =
     (if n = ''id'' then Some (Column SnId)
      else if n = ''brand'' then Some (Column SnBrand)
      else if n = ''model'' then Some (Column SnModel)
      else if n = ''price'' then Some (Column SnPrice)
      else if n = ''rating'' then Some (Column SnRating)
      else if n = ''__tablename__'' then Some NotColumn
      else if base n then Some NotColumn
      else None)"

fun order_by_sneaker :: "sneaker_column \<Rightarrow> bool \<Rightarrow> sneaker list \<Rightarrow> sneaker list" where
  "order_by_sneaker SnId desc q = order_by sn_id desc q"
| "order_by_sneaker SnBrand desc q = order_by sn_brand desc q"
| "order_by_sneaker SnModel desc q = order_by sn_model desc q"
| "order_by_sneaker SnPrice desc q = order_by sn_price desc q"
| "order_by_sneaker SnRating desc q = order_by sn_rating desc q"

text \<open>
  Lines 71--79 of \<^verbatim>\<open>read_sneakers\<close>. A comparison of a NULL price with a bound is NULL, and
  the row is not selected.
\<close>

definition price_ge :: "int option \<Rightarrow> int option \<Rightarrow> bool" where
  "price_ge col bound =
     (case col of None \<Rightarrow> False
      | Some p \<Rightarrow> (case bound of None \<Rightarrow> False | Some b \<Rightarrow> p \<ge> b))"

definition price_le :: "int option \<Rightarrow> int option \<Rightarrow> bool" where
  "price_le col bound =
     (case col of None \<Rightarrow> False
      | Some p \<Rightarrow> (case bound of None \<Rightarrow> False | Some b \<Rightarrow> p \<le> b))"

definition filter_sneakers ::
  "(string \<Rightarrow> string \<Rightarrow> bool) \<Rightarrow> string option \<Rightarrow> int option \<Rightarrow> int option \<Rightarrow> string option \<Rightarrow>
     sneaker list \<Rightarrow> sneaker list" where
  "filter_sneakers contains filter_brand filter_price_min filter_price_max search query =
     (let q1 = (if truthy_str filter_brand
                then filter (\<lambda>r. sn_brand r = filter_brand) query else query);
          q2 = (if truthy_int filter_price_min
                then filter (\<lambda>r. price_ge (sn_price r) filter_price_min) q1 else q1);
          q3 = (if truthy_int filter_price_max
                then filter (\<lambda>r. price_le (sn_price r) filter_price_max) q2 else q2)
      in if truthy_str search
         then filter (\<lambda>r. column_contains contains (sn_brand r) search
                         \<or> column_contains contains (sn_model r) search) q3
         else q3)"

definition sort_sneakers ::
  "(string \<Rightarrow> bool) \<Rightarrow> string option \<Rightarrow> string \<Rightarrow> sneaker list \<Rightarrow> error + sneaker list" where
  "sort_sneakers base sort_by sort_order query =
     (case sort_by of
        None \<Rightarrow> Inr query
      | Some n \<Rightarrow>
          if n = [] then Inr query
          else (case getattr_Sneaker base n of
                  None \<Rightarrow> Inr query
                | Some NotColumn \<Rightarrow> Inl AttributeError
                | Some (Column c) \<Rightarrow> Inr (order_by_sneaker c (lower sort_order
                      = ''desc'') query)))"

definition read_sneakers ::
  "(string \<Rightarrow> string \<Rightarrow> bool) \<Rightarrow> (string \<Rightarrow> bool) \<Rightarrow> sneaker list \<Rightarrow>
     int \<Rightarrow> int \<Rightarrow> string option \<Rightarrow> string \<Rightarrow>
     string option \<Rightarrow> int option \<Rightarrow> int option \<Rightarrow> string option \<Rightarrow>
     error + sneaker list" where
  "read_sneakers contains base db skip limit sort_by sort_order
       filter_brand filter_price_min filter_price_max search =
     (case sort_sneakers base sort_by sort_order
             (filter_sneakers contains filter_brand filter_price_min filter_price_max search db) of
        Inl e \<Rightarrow> Inl e
      | Inr query \<Rightarrow> Inr (query_limit limit (query_offset skip query)))"

definition read_sneaker :: "sneaker list \<Rightarrow> int \<Rightarrow> error + sneaker" where
  "read_sneaker db sneaker_id =
     (case first_with_id sn_id sneaker_id db of
        None \<Rightarrow> Inl (HTTPException 404 ''Sneaker not found'')
      | Some s \<Rightarrow> Inr s)"

definition create_sneaker :: "sneaker list \<Rightarrow> sneaker_create \<Rightarrow> sneaker list \<times> sneaker" where
  "create_sneaker db s =
     (let db_sneaker = \<lparr>sn_id = next_id sn_id db,
                        sn_brand = Some (snc_brand s),
                        sn_model = Some (snc_model s),
                        sn_price = Some (snc_price s),
                        sn_rating = Some 0\<rparr>
      in (db @ [db_sneaker], db_sneaker))"

definition update_sneaker ::
  "sneaker list \<Rightarrow> int \<Rightarrow> sneaker_update \<Rightarrow> sneaker list \<times> (error + sneaker)" where
  "update_sneaker db sneaker_id s =
     (case first_with_id sn_id sneaker_id db of
        None \<Rightarrow> (db, Inl (HTTPException 404 ''Sneaker not found''))
      | Some db_sneaker \<Rightarrow>
          (let d = db_sneaker\<lparr>sn_brand := setattr_field (snu_brand s) (sn_brand db_sneaker),
                              sn_model := setattr_field (snu_model s) (sn_model db_sneaker),
                              sn_price := setattr_field (snu_price s) (sn_price db_sneaker),
                              sn_rating := setattr_field (snu_rating s) (sn_rating db_sneaker)\<rparr>
           in (commit_row sn_id d db, Inr d)))"

definition delete_sneaker :: "sneaker list \<Rightarrow> int \<Rightarrow> sneaker list \<times> (error + unit)" where
  "delete_sneaker db sneaker_id =
     (case first_with_id sn_id sneaker_id db of
        None \<Rightarrow> (db, Inl (HTTPException 404 ''Sneaker not found''))
      | Some db_sneaker \<Rightarrow> (delete_row sn_id (sn_id db_sneaker) db, Inr ()))"

text \<open>
  \<^verbatim>\<open>rate_sneaker\<close>: the parameter is declared \<^verbatim>\<open>Query(..., ge=0, le=5)\<close>, so a rating outside
  the bounds is refused with a validation error before the body of the handler runs.
\<close>

definition rate_sneaker :: "sneaker list \<Rightarrow> int \<Rightarrow> real \<Rightarrow> sneaker list \<times> (error + sneaker)" where
  "rate_sneaker db sneaker_id rating =
     (if \<not> (rating \<ge> 0 \<and> rating \<le> 5) then (db, Inl RequestValidationError)
      else (case first_with_id sn_id sneaker_id db of
              None \<Rightarrow> (db, Inl (HTTPException 404 ''Sneaker not found''))
            | Some db_sneaker \<Rightarrow>
                (let d = db_sneaker\<lparr>sn_rating := Some rating\<rparr>
                 in (commit_row sn_id d db, Inr d))))"

section \<open>Cars (\<^verbatim>\<open>app.py\<close>)\<close>

record car =
  car_id :: int
  car_make :: "string option"
  car_model :: "string option"
  car_year :: "int option"
  car_color :: "string option"
  car_views :: "int option"

record car_create =
  cc_make :: string
  cc_model :: string
  cc_year :: int
  cc_color :: string

record car_update =
  cu_make :: "string field"
  cu_model :: "string field"
  cu_year :: "int field"
  cu_color :: "string field"

datatype car_column = CarId | CarMake | CarModel | CarYear | CarColor | CarViews

definition getattr_Car :: "(string \<Rightarrow> bool) \<Rightarrow> string \<Rightarrow> car_column attr option" where
  "getattr_Car base n =
     (if n = ''id'' then Some (Column CarId)
      else if n = ''make'' then Some (Column CarMake)
      else if n = ''model'' then Some (Column CarModel)
      else if n = ''year'' then Some (Column CarYear)
      else if n = ''color'' then Some (Column CarColor)
      else if n = ''views'' then Some (Column CarViews)
      else if n = ''__tablename__'' then Some NotColumn
      else if base n then Some NotColumn
      else None)"

fun order_by_car :: "car_column \<Rightarrow> bool \<Rightarrow> car list \<Rightarrow> car list" where
  "order_by_car CarId desc q = order_by car_id desc q"
| "order_by_car CarMake desc q = order_by car_make desc q"
| "order_by_car CarModel desc q = order_by car_model desc q"
| "order_by_car CarYear desc q = order_by car_year desc q"
| "order_by_car CarColor desc q = order_by car_color desc q"
| "order_by_car CarViews desc q = order_by car_views desc q"

definition filter_cars ::
  "(string \<Rightarrow> string \<Rightarrow> bool) \<Rightarrow> string option \<Rightarrow> int option \<Rightarrow> string option \<Rightarrow>
     car list \<Rightarrow> car list" where
  "filter_cars contains filter_make filter_year search query =
     (let q1 = (if truthy_str filter_make
                then filter (\<lambda>r. car_make r = filter_make) query else query);
          q2 = (if truthy_int filter_year
                then filter (\<lambda>r. car_year r = filter_year) q1 else q1)
      in if truthy_str search
         then filter (\<lambda>r. column_contains contains (car_make r) search
                         \<or> column_contains contains (car_model r) search) q2
         else q2)"

definition sort_cars ::
  "(string \<Rightarrow> bool) \<Rightarrow> string option \<Rightarrow> string \<Rightarrow> car list \<Rightarrow> error + car list" where
  "sort_cars base sort_by sort_order query =
     (case sort_by of
        None \<Rightarrow> Inr query
      | Some n \<Rightarrow>
          if n = [] then Inr query
          else (case getattr_Car base n of
                  None \<Rightarrow> Inr query
                | Some NotColumn \<Rightarrow> Inl AttributeError
                | Some (Column c) \<Rightarrow> Inr (order_by_car c (lower sort_order
                      = ''desc'') query)))"

definition read_cars ::
  "(string \<Rightarrow> string \<Rightarrow> bool) \<Rightarrow> (string \<Rightarrow> bool) \<Rightarrow> car list \<Rightarrow>
     int \<Rightarrow> int \<Rightarrow> string option \<Rightarrow> string \<Rightarrow> string option \<Rightarrow> int option \<Rightarrow> string option \<Rightarrow>
     error + car list" where
  "read_cars contains base db skip limit sort_by sort_order filter_make filter_year search =
     (case sort_cars base sort_by sort_order
             (filter_cars contains filter_make filter_year search db) of
        Inl e \<Rightarrow> Inl e
      | Inr query \<Rightarrow> Inr (query_limit limit (query_offset skip query)))"

text \<open>
  \<^verbatim>\<open>read_car\<close>: the read writes. On a NULL counter \<^verbatim>\<open>car.views += 1\<close> raises \<^verbatim>\<open>TypeError\<close>.
\<close>

definition read_car :: "car list \<Rightarrow> int \<Rightarrow> car list \<times> (error + car)" where
  "read_car db cid =
     (case first_with_id car_id cid db of
        None \<Rightarrow> (db, Inl (HTTPException 404 ''Car not found''))
      | Some c \<Rightarrow>
          (case car_views c of
             None \<Rightarrow> (db, Inl TypeError)
           | Some v \<Rightarrow>
               (let c' = c\<lparr>car_views := Some (v + 1)\<rparr>
                in (commit_row car_id c' db, Inr c'))))"

definition create_car :: "car list \<Rightarrow> car_create \<Rightarrow> car list \<times> car" where
  "create_car db c =
     (let db_car = \<lparr>car_id = next_id car_id db,
                    car_make = Some (cc_make c),
                    car_model = Some (cc_model c),
                    car_year = Some (cc_year c),
                    car_color = Some (cc_color c),
                    car_views = Some 0\<rparr>
      in (db @ [db_car], db_car))"

definition update_car :: "car list \<Rightarrow> int \<Rightarrow> car_update \<Rightarrow> car list \<times> (error + car)" where
  "update_car db cid c =
     (case first_with_id car_id cid db of
        None \<Rightarrow> (db, Inl (HTTPException 404 ''Car not found''))
      | Some db_car \<Rightarrow>
          (let d = db_car\<lparr>car_make := setattr_field (cu_make c) (car_make db_car),
                          car_model := setattr_field (cu_model c) (car_model db_car),
                          car_year := setattr_field (cu_year c) (car_year db_car),
                          car_color := setattr_field (cu_color c) (car_color db_car)\<rparr>
           in (commit_row car_id d db, Inr d)))"


section \<open>Sequences of requests\<close>




datatype sneaker_request =
    ReadSneakers int int "string option" string "string option" "int option" "int option"
      "string option"
  | ReadSneaker int
  | CreateSneaker sneaker_create
  | UpdateSneaker int sneaker_update
  | DeleteSneaker int
  | RateSneaker int real

fun handle_sneaker :: "sneaker list \<Rightarrow> sneaker_request \<Rightarrow> sneaker list" where
  "handle_sneaker db (ReadSneakers skip limit sort_by sort_order fb fmin fmax search) = db"
| "handle_sneaker db (ReadSneaker i) = db"
| "handle_sneaker db (CreateSneaker c) = fst (create_sneaker db c)"
| "handle_sneaker db (UpdateSneaker i u) = fst (update_sneaker db i u)"
| "handle_sneaker db (DeleteSneaker i) = fst (delete_sneaker db i)"
| "handle_sneaker db (RateSneaker i r) = fst (rate_sneaker db i r)"

definition serve_sneakers :: "sneaker_request list \<Rightarrow> sneaker list" where
  "serve_sneakers reqs = foldl handle_sneaker [] reqs"






definition rating_in_range :: "sneaker list \<Rightarrow> bool" where
  "rating_in_range db =
     list_all (\<lambda>s. case sn_rating s of None \<Rightarrow> False | Some r \<Rightarrow> 0 \<le> r \<and> r \<le> 5) db"


section \<open>Lookups, commits and fresh ids\<close>

lemma first_with_id_key:
  "first_with_id key i db = Some r \<Longrightarrow> key r = i \<and> r \<in> set db"
  unfolding first_with_id_def by (induction db) (auto split: if_splits)

lemma first_with_id_commit:
  "first_with_id key i db = Some r \<Longrightarrow> key r' = i \<Longrightarrow>
     first_with_id key i (commit_row key r' db) = Some r'"
  unfolding first_with_id_def commit_row_def by (induction db) (auto split: if_splits)

lemma fold_max_ge: "(a::int) \<le> fold max xs a"
  by (induction xs arbitrary: a) (auto intro: order_trans[OF max.cobounded2])

lemma fold_max_mem: "x \<in> set xs \<Longrightarrow> (x::int) \<le> fold max xs a"
proof (induction xs arbitrary: a)
  case Nil then show ?case by simp
next
  case (Cons y ys)
  show ?case
  proof (cases "x = y")
    case True
    have "y \<le> max y a" by simp
    also have "\<dots> \<le> fold max ys (max y a)" by (rule fold_max_ge)
    finally show ?thesis using True by simp
  next
    case False
    with Cons show ?thesis by simp
  qed
qed

lemma next_id_fresh: "r \<in> set db \<Longrightarrow> key r < next_id key db"
  unfolding next_id_def using fold_max_mem[of "key r" "map key db" 0] by auto

lemma first_with_id_append:
  "\<forall>r \<in> set db. key r \<noteq> i \<Longrightarrow> key r' = i \<Longrightarrow> first_with_id key i (db @ [r']) = Some r'"
  unfolding first_with_id_def by (induction db) auto

lemma first_with_id_append_new:
  "key r' = next_id key db \<Longrightarrow> first_with_id key (next_id key db) (db @ [r']) = Some r'"
  by (rule first_with_id_append) (auto dest: next_id_fresh[of _ db key])

lemma commit_row_nth:
  "n < length db \<Longrightarrow>
     commit_row key r' db ! n = (if key (db ! n) = key r' then r' else db ! n)"
  unfolding commit_row_def by simp

lemma length_commit_row: "length (commit_row key r' db) = length db"
  unfolding commit_row_def by simp

lemma commit_row_same:
  "distinct (map key db) \<Longrightarrow> r \<in> set db \<Longrightarrow> commit_row key r db = db"
proof -
  assume d: "distinct (map key db)" and m: "r \<in> set db"
  from d have "inj_on key (set db)" by (simp add: distinct_map)
  with m have "\<forall>x \<in> set db. key x = key r \<longrightarrow> x = r" by (auto dest: inj_onD)
  then have "map (\<lambda>x. if key x = key r then r else x) db = map (\<lambda>x. x) db"
    by (intro map_cong) auto
  then show ?thesis unfolding commit_row_def by simp
qed

section \<open>Buying energy drinks\<close>




section \<open>Rating sneakers\<close>

text \<open>
  C5. For every sneaker that exists: a rating outside \<open>[0, 5]\<close> is refused with a validation
  error and the table is unchanged; a rating within \<open>[0, 5]\<close> is stored as the sneaker's
  rating, exactly, with every other field and every row of another id unchanged, and a
  later read of the id yields the entity returned.
\<close>

theorem rate_sneaker_bounds:
  assumes "first_with_id sn_id sneaker_id db = Some s"
  shows "(\<not> (0 \<le> r \<and> r \<le> 5) \<longrightarrow>
            rate_sneaker db sneaker_id r = (db, Inl RequestValidationError))
       \<and> (0 \<le> r \<and> r \<le> 5 \<longrightarrow>
            (\<exists>db'. rate_sneaker db sneaker_id r = (db', Inr (s\<lparr>sn_rating := Some r\<rparr>))
               \<and> read_sneaker db' sneaker_id = Inr (s\<lparr>sn_rating := Some r\<rparr>)
               \<and> length db' = length db
               \<and> (\<forall>n < length db. sn_id (db ! n) \<noteq> sneaker_id \<longrightarrow> db' ! n = db ! n)))"
proof -
  from assms have k: "sn_id s = sneaker_id"
    by (simp add: first_with_id_key)
  let ?s = "s\<lparr>sn_rating := Some r\<rparr>"
  let ?db = "commit_row sn_id ?s db"
  have a: "\<not> (0 \<le> r \<and> r \<le> 5) \<Longrightarrow>
             rate_sneaker db sneaker_id r = (db, Inl RequestValidationError)"
    by (simp add: rate_sneaker_def)
  have b: "0 \<le> r \<and> r \<le> 5 \<Longrightarrow> rate_sneaker db sneaker_id r = (?db, Inr ?s)"
    using assms by (simp add: rate_sneaker_def Let_def)
  have c: "read_sneaker ?db sneaker_id = Inr ?s"
    using first_with_id_commit[OF assms, of ?s] k by (simp add: read_sneaker_def)
  have d: "\<forall>n < length db. sn_id (db ! n) \<noteq> sneaker_id \<longrightarrow> ?db ! n = db ! n"
    using k by (simp add: commit_row_nth)
  from a b c d show ?thesis by (auto simp: length_commit_row)
qed

text \<open>
  The scenario of the specification: a sneaker created with rating 0; rating it 7 is
  refused; rating it 4.5 sets the rating to 4.5.
\<close>

theorem rate_sneaker_bounds_witness:
  "create_sneaker [] \<lparr>snc_brand = ''A'', snc_model = ''B'', snc_price = 10\<rparr>
     = ([\<lparr>sn_id = 1, sn_brand = Some ''A'', sn_model = Some ''B'', sn_price = Some 10,
           sn_rating = Some 0\<rparr>],
        \<lparr>sn_id = 1, sn_brand = Some ''A'', sn_model = Some ''B'', sn_price = Some 10,
          sn_rating = Some 0\<rparr>)
   \<and> rate_sneaker
       [\<lparr>sn_id = 1, sn_brand = Some ''A'', sn_model = Some ''B'', sn_price = Some 10,
          sn_rating = Some 0\<rparr>] 1 7
     = ([\<lparr>sn_id = 1, sn_brand = Some ''A'', sn_model = Some ''B'', sn_price = Some 10,
           sn_rating = Some 0\<rparr>],
        Inl RequestValidationError)
   \<and> rate_sneaker
       [\<lparr>sn_id = 1, sn_brand = Some ''A'', sn_model = Some ''B'', sn_price = Some 10,
          sn_rating = Some 0\<rparr>] 1 4.5
     = ([\<lparr>sn_id = 1, sn_brand = Some ''A'', sn_model = Some ''B'', sn_price = Some 10,
           sn_rating = Some 4.5\<rparr>],
        Inr \<lparr>sn_id = 1, sn_brand = Some ''A'', sn_model = Some ''B'', sn_price = Some 10,
              sn_rating = Some 4.5\<rparr>)"
proof -
  let ?s0 = "\<lparr>sn_id = 1, sn_brand = Some ''A'', sn_model = Some ''B'', sn_price = Some 10,
               sn_rating = Some (0::real)\<rparr>"
  let ?s1 = "\<lparr>sn_id = 1, sn_brand = Some ''A'', sn_model = Some ''B'', sn_price = Some 10,
               sn_rating = Some (4.5::real)\<rparr>"
  have f: "first_with_id sn_id 1 [?s0] = Some ?s0" by (simp add: first_with_id_def)
  have c: "create_sneaker [] \<lparr>snc_brand = ''A'', snc_model = ''B'', snc_price = 10\<rparr>
             = ([?s0], ?s0)"
    by (simp add: create_sneaker_def next_id_def Let_def)
  have r7: "rate_sneaker [?s0] 1 7 = ([?s0], Inl RequestValidationError)"
    using rate_sneaker_bounds[OF f, where r = 7] by simp
  have r45: "rate_sneaker [?s0] 1 4.5 = ([?s1], Inr ?s1)"
    using rate_sneaker_bounds[OF f, where r = "4.5"]
    by (auto simp: read_sneaker_def first_with_id_def length_Suc_conv split: if_splits)
  from c r7 r45 show ?thesis by simp
qed

section \<open>Reading a car counts a view\<close>

lemma read_car_step:
  "(\<forall>c v. first_with_id car_id cid db = Some c \<and> car_views c = Some v \<longrightarrow>
      (\<exists>db'. read_car db cid = (db', Inr (c\<lparr>car_views := Some (v + 1)\<rparr>))
         \<and> first_with_id car_id cid db' = Some (c\<lparr>car_views := Some (v + 1)\<rparr>)
         \<and> length db' = length db
         \<and> (\<forall>n < length db. car_id (db ! n) \<noteq> cid \<longrightarrow> db' ! n = db ! n)))
   \<and> (\<forall>db' c'. read_car db cid = (db', Inr c') \<longrightarrow>
        (\<exists>c v. first_with_id car_id cid db = Some c \<and> car_views c = Some v
           \<and> c' = c\<lparr>car_views := Some (v + 1)\<rparr>))
   \<and> (first_with_id car_id cid db = None \<longrightarrow>
        read_car db cid = (db, Inl (HTTPException 404 ''Car not found'')))"
proof (intro conjI allI impI)
  fix c v
  assume h: "first_with_id car_id cid db = Some c \<and> car_views c = Some v"
  then have k: "car_id c = cid" using first_with_id_key[of car_id cid db c] by simp
  let ?c = "c\<lparr>car_views := Some (v + 1)\<rparr>"
  let ?db = "commit_row car_id ?c db"
  have 1: "read_car db cid = (?db, Inr ?c)"
    using h by (simp add: read_car_def Let_def)
  have 2: "first_with_id car_id cid ?db = Some ?c"
    using first_with_id_commit[of car_id cid db c ?c] h k by simp
  have 3: "\<forall>n < length db. car_id (db ! n) \<noteq> cid \<longrightarrow> ?db ! n = db ! n"
    using k by (simp add: commit_row_nth)
  from 1 2 3 show "\<exists>db'. read_car db cid = (db', Inr ?c)
         \<and> first_with_id car_id cid db' = Some ?c
         \<and> length db' = length db
         \<and> (\<forall>n < length db. car_id (db ! n) \<noteq> cid \<longrightarrow> db' ! n = db ! n)"
    by (simp add: length_commit_row)
next
  fix db' c'
  assume "read_car db cid = (db', Inr c')"
  then show "\<exists>c v. first_with_id car_id cid db = Some c \<and> car_views c = Some v
           \<and> c' = c\<lparr>car_views := Some (v + 1)\<rparr>"
    by (auto simp: read_car_def Let_def split: option.splits)
next
  assume "first_with_id car_id cid db = None"
  then show "read_car db cid = (db, Inl (HTTPException 404 ''Car not found''))"
    by (simp add: read_car_def)
qed

lemma create_car_found:
  "create_car db req = (db1, c0) \<Longrightarrow>
     first_with_id car_id (car_id c0) db1 = Some c0 \<and> car_views c0 = Some 0"
  using first_with_id_append_new[of car_id _ db]
  by (auto simp: create_car_def Let_def)

lemma three_gets:
  assumes "create_car db req = (db1, c0)"
  shows "\<exists>db2 db3 db4 c1 c2 c3.
           read_car db1 (car_id c0) = (db2, Inr c1)
         \<and> read_car db2 (car_id c0) = (db3, Inr c2)
         \<and> read_car db3 (car_id c0) = (db4, Inr c3)
         \<and> c3 = c0\<lparr>car_views := Some 3\<rparr>
         \<and> first_with_id car_id (car_id c0) db4 = Some c3"
proof -
  let ?i = "car_id c0"
  from create_car_found[OF assms]
  have f0: "first_with_id car_id ?i db1 = Some c0" and v0: "car_views c0 = Some 0" by auto
  let ?c1 = "c0\<lparr>car_views := Some 1\<rparr>"
  let ?c2 = "c0\<lparr>car_views := Some 2\<rparr>"
  let ?c3 = "c0\<lparr>car_views := Some 3\<rparr>"
  let ?db2 = "commit_row car_id ?c1 db1"
  let ?db3 = "commit_row car_id ?c2 ?db2"
  let ?db4 = "commit_row car_id ?c3 ?db3"
  have r1: "read_car db1 ?i = (?db2, Inr ?c1)"
    using f0 v0 by (simp add: read_car_def Let_def)
  have f1: "first_with_id car_id ?i ?db2 = Some ?c1"
    using first_with_id_commit[OF f0, of ?c1] by simp
  have r2: "read_car ?db2 ?i = (?db3, Inr ?c2)"
    using f1 by (simp add: read_car_def Let_def)
  have f2: "first_with_id car_id ?i ?db3 = Some ?c2"
    using first_with_id_commit[OF f1, of ?c2] by simp
  have r3: "read_car ?db3 ?i = (?db4, Inr ?c3)"
    using f2 by (simp add: read_car_def Let_def)
  have f3: "first_with_id car_id ?i ?db4 = Some ?c3"
    using first_with_id_commit[OF f2, of ?c3] by simp
  from r1 r2 r3 f3 show ?thesis by blast
qed

text \<open>
  C8. A get of a car that exists, with an integer counter \<open>v\<close>, returns the car with the
  counter \<open>v + 1\<close> and every other field as before, and stores it: a lookup of the id in
  the new table finds the entity returned, and rows of other ids are unchanged. Every
  successful get is of this form. A get of an id that does not exist fails with 404 and
  leaves the table as it was. After three gets of a car just created, in any table, the
  stored counter is 3.
\<close>

theorem read_car_views:
  "(\<forall>c v. first_with_id car_id cid db = Some c \<and> car_views c = Some v \<longrightarrow>
      (\<exists>db'. read_car db cid = (db', Inr (c\<lparr>car_views := Some (v + 1)\<rparr>))
         \<and> first_with_id car_id cid db' = Some (c\<lparr>car_views := Some (v + 1)\<rparr>)
         \<and> length db' = length db
         \<and> (\<forall>n < length db. car_id (db ! n) \<noteq> cid \<longrightarrow> db' ! n = db ! n)))
   \<and> (\<forall>db' c'. read_car db cid = (db', Inr c') \<longrightarrow>
        (\<exists>c v. first_with_id car_id cid db = Some c \<and> car_views c = Some v
           \<and> c' = c\<lparr>car_views := Some (v + 1)\<rparr>))
   \<and> (first_with_id car_id cid db = None \<longrightarrow>
        read_car db cid = (db, Inl (HTTPException 404 ''Car not found'')))
   \<and> (\<forall>db1 c0. create_car db req = (db1, c0) \<longrightarrow>
        (\<exists>db2 db3 db4 c1 c2 c3.
           read_car db1 (car_id c0) = (db2, Inr c1)
         \<and> read_car db2 (car_id c0) = (db3, Inr c2)
         \<and> read_car db3 (car_id c0) = (db4, Inr c3)
         \<and> c3 = c0\<lparr>car_views := Some 3\<rparr>
         \<and> first_with_id car_id (car_id c0) db4 = Some c3))"
  using read_car_step[of cid db] three_gets[of db req] by blast

theorem read_car_views_witness:
  "create_car [] \<lparr>cc_make = ''Lada'', cc_model = ''Niva'', cc_year = 1999, cc_color = ''red''\<rparr>
     = ([\<lparr>car_id = 1, car_make = Some ''Lada'', car_model = Some ''Niva'', car_year = Some 1999,
           car_color = Some ''red'', car_views = Some 0\<rparr>],
        \<lparr>car_id = 1, car_make = Some ''Lada'', car_model = Some ''Niva'', car_year = Some 1999,
          car_color = Some ''red'', car_views = Some 0\<rparr>)
   \<and> read_car
       [\<lparr>car_id = 1, car_make = Some ''Lada'', car_model = Some ''Niva'', car_year = Some 1999,
          car_color = Some ''red'', car_views = Some 0\<rparr>] 1
     = ([\<lparr>car_id = 1, car_make = Some ''Lada'', car_model = Some ''Niva'', car_year = Some 1999,
           car_color = Some ''red'', car_views = Some 1\<rparr>],
        Inr \<lparr>car_id = 1, car_make = Some ''Lada'', car_model = Some ''Niva'',
              car_year = Some 1999, car_color = Some ''red'', car_views = Some 1\<rparr>)
   \<and> read_car
       [\<lparr>car_id = 1, car_make = Some ''Lada'', car_model = Some ''Niva'', car_year = Some 1999,
          car_color = Some ''red'', car_views = Some 0\<rparr>] 2
     = ([\<lparr>car_id = 1, car_make = Some ''Lada'', car_model = Some ''Niva'', car_year = Some 1999,
           car_color = Some ''red'', car_views = Some 0\<rparr>],
        Inl (HTTPException 404 ''Car not found''))"
proof -
  let ?c0 = "\<lparr>car_id = 1, car_make = Some ''Lada'', car_model = Some ''Niva'',
               car_year = Some 1999, car_color = Some ''red'', car_views = Some 0\<rparr>"
  let ?c1 = "\<lparr>car_id = 1, car_make = Some ''Lada'', car_model = Some ''Niva'',
               car_year = Some 1999, car_color = Some ''red'', car_views = Some 1\<rparr>"
  let ?req = "\<lparr>cc_make = ''Lada'', cc_model = ''Niva'', cc_year = 1999, cc_color = ''red''\<rparr>"
  have f1: "first_with_id car_id 1 [?c0] = Some ?c0 \<and> car_views ?c0 = Some 0"
    by (simp add: first_with_id_def)
  have f2: "first_with_id car_id 2 [?c0] = None"
    by (simp add: first_with_id_def)
  have c: "create_car [] ?req = ([?c0], ?c0)"
    by (simp add: create_car_def next_id_def Let_def)
  from read_car_views[of 1 "[?c0]" ?req] f1
  have "\<exists>db'. read_car [?c0] 1 = (db', Inr (?c0\<lparr>car_views := Some (0 + 1)\<rparr>))
           \<and> first_with_id car_id 1 db' = Some (?c0\<lparr>car_views := Some (0 + 1)\<rparr>)
           \<and> length db' = length [?c0]
           \<and> (\<forall>n < length [?c0]. car_id ([?c0] ! n) \<noteq> 1 \<longrightarrow> db' ! n = [?c0] ! n)"
    by blast
  then have r1: "read_car [?c0] 1 = ([?c1], Inr ?c1)"
    by (auto simp: first_with_id_def length_Suc_conv split: if_splits)
  from read_car_views[of 2 "[?c0]" ?req] f2
  have r2: "read_car [?c0] 2 = ([?c0], Inl (HTTPException 404 ''Car not found''))"
    by blast
  from c r1 r2 show ?thesis by simp
qed

section \<open>Partial updates\<close>

lemma update_energy_drink_fields:
  assumes "first_with_id ed_id i db = Some d"
  shows "\<exists>db' d'. update_energy_drink db i u = (db', Inr d')
           \<and> read_energy_drink db' i = Inr d'
           \<and> ed_id d' = ed_id d
           \<and> (edu_brand u = Unset \<longrightarrow> ed_brand d' = ed_brand d)
           \<and> (\<forall>v. edu_brand u = Supplied v \<longrightarrow> ed_brand d' = v)
           \<and> (edu_name u = Unset \<longrightarrow> ed_name d' = ed_name d)
           \<and> (\<forall>v. edu_name u = Supplied v \<longrightarrow> ed_name d' = v)
           \<and> (edu_volume_ml u = Unset \<longrightarrow> ed_volume_ml d' = ed_volume_ml d)
           \<and> (\<forall>v. edu_volume_ml u = Supplied v \<longrightarrow> ed_volume_ml d' = v)
           \<and> (edu_price u = Unset \<longrightarrow> ed_price d' = ed_price d)
           \<and> (\<forall>v. edu_price u = Supplied v \<longrightarrow> ed_price d' = v)
           \<and> (edu_stock u = Unset \<longrightarrow> ed_stock d' = ed_stock d)
           \<and> (\<forall>v. edu_stock u = Supplied v \<longrightarrow> ed_stock d' = v)
           \<and> length db' = length db
           \<and> (\<forall>n < length db. ed_id (db ! n) \<noteq> i \<longrightarrow> db' ! n = db ! n)"
proof -
  from assms have k: "ed_id d = i" by (simp add: first_with_id_key)
  let ?d = "d\<lparr>ed_brand := setattr_field (edu_brand u) (ed_brand d),
               ed_name := setattr_field (edu_name u) (ed_name d),
               ed_volume_ml := setattr_field (edu_volume_ml u) (ed_volume_ml d),
               ed_price := setattr_field (edu_price u) (ed_price d),
               ed_stock := setattr_field (edu_stock u) (ed_stock d)\<rparr>"
  let ?db = "commit_row ed_id ?d db"
  have 1: "update_energy_drink db i u = (?db, Inr ?d)"
    using assms by (simp add: update_energy_drink_def Let_def)
  have 2: "read_energy_drink ?db i = Inr ?d"
    using first_with_id_commit[OF assms, of ?d] k by (simp add: read_energy_drink_def)
  have 3: "\<forall>n < length db. ed_id (db ! n) \<noteq> i \<longrightarrow> ?db ! n = db ! n"
    using k by (simp add: commit_row_nth)
  show ?thesis
    apply (rule exI[of _ ?db], rule exI[of _ ?d])
    using 1 2 3 by (simp add: setattr_field_def length_commit_row)
qed

lemma update_energy_drink_empty:
  assumes "first_with_id ed_id i db = Some d"
  shows "snd (update_energy_drink db i \<lparr>edu_brand = Unset, edu_name = Unset, edu_volume_ml = Unset, edu_price = Unset, edu_stock = Unset\<rparr>) = Inr d
       \<and> (distinct (map ed_id db) \<longrightarrow>
            fst (update_energy_drink db i \<lparr>edu_brand = Unset, edu_name = Unset, edu_volume_ml = Unset, edu_price = Unset, edu_stock = Unset\<rparr>) = db)"
  using assms first_with_id_key[OF assms]
  by (simp add: update_energy_drink_def Let_def setattr_field_def commit_row_same)

lemma update_energy_drink_not_found:
  "first_with_id ed_id i db = None \<Longrightarrow>
     update_energy_drink db i u = (db, Inl (HTTPException 404 ''Energy drink not found''))"
  by (simp add: update_energy_drink_def)

lemma update_sneaker_fields:
  assumes "first_with_id sn_id i db = Some d"
  shows "\<exists>db' d'. update_sneaker db i u = (db', Inr d')
           \<and> read_sneaker db' i = Inr d'
           \<and> sn_id d' = sn_id d
           \<and> (snu_brand u = Unset \<longrightarrow> sn_brand d' = sn_brand d)
           \<and> (\<forall>v. snu_brand u = Supplied v \<longrightarrow> sn_brand d' = v)
           \<and> (snu_model u = Unset \<longrightarrow> sn_model d' = sn_model d)
           \<and> (\<forall>v. snu_model u = Supplied v \<longrightarrow> sn_model d' = v)
           \<and> (snu_price u = Unset \<longrightarrow> sn_price d' = sn_price d)
           \<and> (\<forall>v. snu_price u = Supplied v \<longrightarrow> sn_price d' = v)
           \<and> (snu_rating u = Unset \<longrightarrow> sn_rating d' = sn_rating d)
           \<and> (\<forall>v. snu_rating u = Supplied v \<longrightarrow> sn_rating d' = v)
           \<and> length db' = length db
           \<and> (\<forall>n < length db. sn_id (db ! n) \<noteq> i \<longrightarrow> db' ! n = db ! n)"
proof -
  from assms have k: "sn_id d = i" by (simp add: first_with_id_key)
  let ?d = "d\<lparr>sn_brand := setattr_field (snu_brand u) (sn_brand d),
               sn_model := setattr_field (snu_model u) (sn_model d),
               sn_price := setattr_field (snu_price u) (sn_price d),
               sn_rating := setattr_field (snu_rating u) (sn_rating d)\<rparr>"
  let ?db = "commit_row sn_id ?d db"
  have 1: "update_sneaker db i u = (?db, Inr ?d)"
    using assms by (simp add: update_sneaker_def Let_def)
  have 2: "read_sneaker ?db i = Inr ?d"
    using first_with_id_commit[OF assms, of ?d] k by (simp add: read_sneaker_def)
  have 3: "\<forall>n < length db. sn_id (db ! n) \<noteq> i \<longrightarrow> ?db ! n = db ! n"
    using k by (simp add: commit_row_nth)
  show ?thesis
    apply (rule exI[of _ ?db], rule exI[of _ ?d])
    using 1 2 3 by (simp add: setattr_field_def length_commit_row)
qed

lemma update_sneaker_empty:
  assumes "first_with_id sn_id i db = Some d"
  shows "snd (update_sneaker db i \<lparr>snu_brand = Unset, snu_model = Unset, snu_price = Unset, snu_rating = Unset\<rparr>) = Inr d
       \<and> (distinct (map sn_id db) \<longrightarrow>
            fst (update_sneaker db i \<lparr>snu_brand = Unset, snu_model = Unset, snu_price = Unset, snu_rating = Unset\<rparr>) = db)"
  using assms first_with_id_key[OF assms]
  by (simp add: update_sneaker_def Let_def setattr_field_def commit_row_same)

lemma update_sneaker_not_found:
  "first_with_id sn_id i db = None \<Longrightarrow>
     update_sneaker db i u = (db, Inl (HTTPException 404 ''Sneaker not found''))"
  by (simp add: update_sneaker_def)

lemma update_car_fields:
  assumes "first_with_id car_id i db = Some d"
  shows "\<exists>db' d'. update_car db i u = (db', Inr d')
           \<and> first_with_id car_id i db' = Some d'
           \<and> car_id d' = car_id d
           \<and> car_views d' = car_views d
           \<and> (cu_make u = Unset \<longrightarrow> car_make d' = car_make d)
           \<and> (\<forall>v. cu_make u = Supplied v \<longrightarrow> car_make d' = v)
           \<and> (cu_model u = Unset \<longrightarrow> car_model d' = car_model d)
           \<and> (\<forall>v. cu_model u = Supplied v \<longrightarrow> car_model d' = v)
           \<and> (cu_year u = Unset \<longrightarrow> car_year d' = car_year d)
           \<and> (\<forall>v. cu_year u = Supplied v \<longrightarrow> car_year d' = v)
           \<and> (cu_color u = Unset \<longrightarrow> car_color d' = car_color d)
           \<and> (\<forall>v. cu_color u = Supplied v \<longrightarrow> car_color d' = v)
           \<and> length db' = length db
           \<and> (\<forall>n < length db. car_id (db ! n) \<noteq> i \<longrightarrow> db' ! n = db ! n)"
proof -
  from assms have k: "car_id d = i" by (simp add: first_with_id_key)
  let ?d = "d\<lparr>car_make := setattr_field (cu_make u) (car_make d),
               car_model := setattr_field (cu_model u) (car_model d),
               car_year := setattr_field (cu_year u) (car_year d),
               car_color := setattr_field (cu_color u) (car_color d)\<rparr>"
  let ?db = "commit_row car_id ?d db"
  have 1: "update_car db i u = (?db, Inr ?d)"
    using assms by (simp add: update_car_def Let_def)
  have 2: "first_with_id car_id i ?db = Some ?d"
    using first_with_id_commit[OF assms, of ?d] k by simp
  have 3: "\<forall>n < length db. car_id (db ! n) \<noteq> i \<longrightarrow> ?db ! n = db ! n"
    using k by (simp add: commit_row_nth)
  show ?thesis
    apply (rule exI[of _ ?db], rule exI[of _ ?d])
    using 1 2 3 by (simp add: setattr_field_def length_commit_row)
qed

lemma update_car_empty:
  assumes "first_with_id car_id i db = Some d"
  shows "snd (update_car db i \<lparr>cu_make = Unset, cu_model = Unset, cu_year = Unset, cu_color = Unset\<rparr>) = Inr d
       \<and> (distinct (map car_id db) \<longrightarrow>
            fst (update_car db i \<lparr>cu_make = Unset, cu_model = Unset, cu_year = Unset, cu_color = Unset\<rparr>) = db)"
  using assms first_with_id_key[OF assms]
  by (simp add: update_car_def Let_def setattr_field_def commit_row_same)

lemma update_car_not_found:
  "first_with_id car_id i db = None \<Longrightarrow>
     update_car db i u = (db, Inl (HTTPException 404 ''Car not found''))"
  by (simp add: update_car_def)

text \<open>
  C9. For each of the three resources and every update request: where the id exists, the
  update succeeds and returns the entity in which every field the request leaves out has
  its old value and every field the request supplies has the supplied value (\<^verbatim>\<open>null\<close>
  included); the id is unchanged, as is the view counter of a car; a later lookup of the id
  yields the returned entity and rows of other ids are unchanged. An update that supplies
  no field returns the entity as it was, and leaves the whole table as it was where the
  ids of the table are distinct, as a primary key is. Where the id does not exist the
  update fails with 404 and the table is unchanged.
\<close>

theorem update_changes_supplied_fields:
  "(\<forall>d. first_with_id ed_id ei edb = Some d \<longrightarrow>
        (\<exists>db' d'. update_energy_drink edb ei eu = (db', Inr d')
              \<and> read_energy_drink db' ei = Inr d'
              \<and> ed_id d' = ed_id d
              \<and> (edu_brand eu = Unset \<longrightarrow> ed_brand d' = ed_brand d)
              \<and> (\<forall>v. edu_brand eu = Supplied v \<longrightarrow> ed_brand d' = v)
              \<and> (edu_name eu = Unset \<longrightarrow> ed_name d' = ed_name d)
              \<and> (\<forall>v. edu_name eu = Supplied v \<longrightarrow> ed_name d' = v)
              \<and> (edu_volume_ml eu = Unset \<longrightarrow> ed_volume_ml d' = ed_volume_ml d)
              \<and> (\<forall>v. edu_volume_ml eu = Supplied v \<longrightarrow> ed_volume_ml d' = v)
              \<and> (edu_price eu = Unset \<longrightarrow> ed_price d' = ed_price d)
              \<and> (\<forall>v. edu_price eu = Supplied v \<longrightarrow> ed_price d' = v)
              \<and> (edu_stock eu = Unset \<longrightarrow> ed_stock d' = ed_stock d)
              \<and> (\<forall>v. edu_stock eu = Supplied v \<longrightarrow> ed_stock d' = v)
              \<and> length db' = length edb
              \<and> (\<forall>n < length edb. ed_id (edb ! n) \<noteq> ei \<longrightarrow> db' ! n = edb ! n))
      \<and> snd (update_energy_drink edb ei \<lparr>edu_brand = Unset, edu_name = Unset, edu_volume_ml = Unset, edu_price = Unset, edu_stock = Unset\<rparr>) = Inr d
      \<and> (distinct (map ed_id edb) \<longrightarrow>
            fst (update_energy_drink edb ei \<lparr>edu_brand = Unset, edu_name = Unset, edu_volume_ml = Unset, edu_price = Unset, edu_stock = Unset\<rparr>) = edb))
   \<and> (first_with_id ed_id ei edb = None \<longrightarrow>
        update_energy_drink edb ei eu = (edb, Inl (HTTPException 404 ''Energy drink not found'')))
   \<and> (\<forall>d. first_with_id sn_id si sdb = Some d \<longrightarrow>
        (\<exists>db' d'. update_sneaker sdb si su = (db', Inr d')
              \<and> read_sneaker db' si = Inr d'
              \<and> sn_id d' = sn_id d
              \<and> (snu_brand su = Unset \<longrightarrow> sn_brand d' = sn_brand d)
              \<and> (\<forall>v. snu_brand su = Supplied v \<longrightarrow> sn_brand d' = v)
              \<and> (snu_model su = Unset \<longrightarrow> sn_model d' = sn_model d)
              \<and> (\<forall>v. snu_model su = Supplied v \<longrightarrow> sn_model d' = v)
              \<and> (snu_price su = Unset \<longrightarrow> sn_price d' = sn_price d)
              \<and> (\<forall>v. snu_price su = Supplied v \<longrightarrow> sn_price d' = v)
              \<and> (snu_rating su = Unset \<longrightarrow> sn_rating d' = sn_rating d)
              \<and> (\<forall>v. snu_rating su = Supplied v \<longrightarrow> sn_rating d' = v)
              \<and> length db' = length sdb
              \<and> (\<forall>n < length sdb. sn_id (sdb ! n) \<noteq> si \<longrightarrow> db' ! n = sdb ! n))
      \<and> snd (update_sneaker sdb si \<lparr>snu_brand = Unset, snu_model = Unset, snu_price = Unset, snu_rating = Unset\<rparr>) = Inr d
      \<and> (distinct (map sn_id sdb) \<longrightarrow>
            fst (update_sneaker sdb si \<lparr>snu_brand = Unset, snu_model = Unset, snu_price = Unset, snu_rating = Unset\<rparr>) = sdb))
   \<and> (first_with_id sn_id si sdb = None \<longrightarrow>
        update_sneaker sdb si su = (sdb, Inl (HTTPException 404 ''Sneaker not found'')))
   \<and> (\<forall>d. first_with_id car_id ci cdb = Some d \<longrightarrow>
        (\<exists>db' d'. update_car cdb ci cu = (db', Inr d')
              \<and> first_with_id car_id ci db' = Some d'
              \<and> car_id d' = car_id d
              \<and> car_views d' = car_views d
              \<and> (cu_make cu = Unset \<longrightarrow> car_make d' = car_make d)
              \<and> (\<forall>v. cu_make cu = Supplied v \<longrightarrow> car_make d' = v)
              \<and> (cu_model cu = Unset \<longrightarrow> car_model d' = car_model d)
              \<and> (\<forall>v. cu_model cu = Supplied v \<longrightarrow> car_model d' = v)
              \<and> (cu_year cu = Unset \<longrightarrow> car_year d' = car_year d)
              \<and> (\<forall>v. cu_year cu = Supplied v \<longrightarrow> car_year d' = v)
              \<and> (cu_color cu = Unset \<longrightarrow> car_color d' = car_color d)
              \<and> (\<forall>v. cu_color cu = Supplied v \<longrightarrow> car_color d' = v)
              \<and> length db' = length cdb
              \<and> (\<forall>n < length cdb. car_id (cdb ! n) \<noteq> ci \<longrightarrow> db' ! n = cdb ! n))
      \<and> snd (update_car cdb ci \<lparr>cu_make = Unset, cu_model = Unset, cu_year = Unset, cu_color = Unset\<rparr>) = Inr d
      \<and> (distinct (map car_id cdb) \<longrightarrow>
            fst (update_car cdb ci \<lparr>cu_make = Unset, cu_model = Unset, cu_year = Unset, cu_color = Unset\<rparr>) = cdb))
   \<and> (first_with_id car_id ci cdb = None \<longrightarrow>
        update_car cdb ci cu = (cdb, Inl (HTTPException 404 ''Car not found'')))"
proof (intro conjI allI impI)
qed (simp_all add: update_energy_drink_fields update_energy_drink_empty
      update_energy_drink_not_found update_sneaker_fields update_sneaker_empty
      update_sneaker_not_found update_car_fields update_car_empty update_car_not_found)

theorem update_changes_supplied_fields_witness:
  "update_energy_drink
       [\<lparr>ed_id = 1, ed_brand = Some ''X'', ed_name = Some ''Y'', ed_volume_ml = Some 250,
          ed_price = Some 100, ed_stock = Some 5\<rparr>] 1
       \<lparr>edu_brand = Unset, edu_name = Unset, edu_volume_ml = Unset,
         edu_price = Supplied (Some 120), edu_stock = Unset\<rparr>
     = ([\<lparr>ed_id = 1, ed_brand = Some ''X'', ed_name = Some ''Y'', ed_volume_ml = Some 250,
           ed_price = Some 120, ed_stock = Some 5\<rparr>],
        Inr \<lparr>ed_id = 1, ed_brand = Some ''X'', ed_name = Some ''Y'', ed_volume_ml = Some 250,
              ed_price = Some 120, ed_stock = Some 5\<rparr>)
   \<and> update_sneaker [] 1
       \<lparr>snu_brand = Unset, snu_model = Unset, snu_price = Unset, snu_rating = Unset\<rparr>
     = ([], Inl (HTTPException 404 ''Sneaker not found''))
   \<and> update_car [] 1 \<lparr>cu_make = Unset, cu_model = Unset, cu_year = Unset, cu_color = Unset\<rparr>
     = ([], Inl (HTTPException 404 ''Car not found''))"
proof -
  let ?d = "\<lparr>ed_id = 1, ed_brand = Some ''X'', ed_name = Some ''Y'', ed_volume_ml = Some 250,
              ed_price = Some 100, ed_stock = Some 5\<rparr>"
  let ?eu = "\<lparr>edu_brand = Unset, edu_name = Unset, edu_volume_ml = Unset,
               edu_price = Supplied (Some 120), edu_stock = Unset\<rparr>"
  let ?su = "\<lparr>snu_brand = Unset, snu_model = Unset, snu_price = Unset, snu_rating = Unset\<rparr>"
  let ?cu = "\<lparr>cu_make = Unset, cu_model = Unset, cu_year = Unset, cu_color = Unset\<rparr>"
  note u = update_changes_supplied_fields[of 1 "[?d]" ?eu 1 "[]" ?su 1 "[]" ?cu]
  have f: "first_with_id ed_id 1 [?d] = Some ?d" by (simp add: first_with_id_def)
  have s: "first_with_id sn_id 1 [] = None" by (simp add: first_with_id_def)
  have c: "first_with_id car_id 1 [] = None" by (simp add: first_with_id_def)
  from u f have "\<exists>db' d'. update_energy_drink [?d] 1 ?eu = (db', Inr d')
      \<and> read_energy_drink db' 1 = Inr d' \<and> ed_id d' = 1
      \<and> ed_brand d' = Some ''X'' \<and> ed_name d' = Some ''Y'' \<and> ed_volume_ml d' = Some 250
      \<and> ed_price d' = Some 120 \<and> ed_stock d' = Some 5 \<and> length db' = length [?d]"
    by auto
  then have e: "update_energy_drink [?d] 1 ?eu
                  = ([?d\<lparr>ed_price := Some 120\<rparr>], Inr (?d\<lparr>ed_price := Some 120\<rparr>))"
    by (auto simp: read_energy_drink_def first_with_id_def length_Suc_conv split: if_splits)
  from u s have s': "update_sneaker [] 1 ?su = ([], Inl (HTTPException 404 ''Sneaker not found''))"
    by blast
  from u c have c': "update_car [] 1 ?cu = ([], Inl (HTTPException 404 ''Car not found''))"
    by blast
  from e s' c' show ?thesis by simp
qed

section \<open>Listing: pages, filters and sorting\<close>












lemma read_energy_drinks_falsy:
  "read_energy_drinks contains base edb skip limit sort_by sort_order (Some []) filter_volume search
     = read_energy_drinks contains base edb skip limit sort_by sort_order None filter_volume search"
  "read_energy_drinks contains base edb skip limit sort_by sort_order filter_brand (Some 0) search
     = read_energy_drinks contains base edb skip limit sort_by sort_order filter_brand None search"
  "read_energy_drinks contains base edb skip limit sort_by sort_order
        filter_brand filter_volume (Some [])
     = read_energy_drinks contains base edb skip limit sort_by sort_order
           filter_brand filter_volume None"
  by (simp_all add: read_energy_drinks_def filter_energy_def truthy_str_def truthy_int_def)

lemma read_energy_drinks_tablename:
  "read_energy_drinks contains base edb skip limit (Some ''__tablename__'') sort_order
        filter_brand filter_volume search
     = Inl AttributeError"
  by (simp add: read_energy_drinks_def sort_energy_def getattr_EnergyDrink_def)

lemma read_energy_drinks_unknown_sort:
  "getattr_EnergyDrink base n = None \<Longrightarrow>
     read_energy_drinks contains base edb skip limit (Some n) sort_order
           filter_brand filter_volume search
       = read_energy_drinks contains base edb skip limit None sort_order
             filter_brand filter_volume search"
  by (simp add: read_energy_drinks_def sort_energy_def)







lemma read_sneakers_falsy:
  "read_sneakers contains base sdb skip limit sort_by sort_order
        (Some []) filter_price_min filter_price_max search
     = read_sneakers contains base sdb skip limit sort_by sort_order
           None filter_price_min filter_price_max search"
  "read_sneakers contains base sdb skip limit sort_by sort_order
        sneaker_brand (Some 0) filter_price_max search
     = read_sneakers contains base sdb skip limit sort_by sort_order
           sneaker_brand None filter_price_max search"
  "read_sneakers contains base sdb skip limit sort_by sort_order
        sneaker_brand filter_price_min (Some 0) search
     = read_sneakers contains base sdb skip limit sort_by sort_order
           sneaker_brand filter_price_min None search"
  "read_sneakers contains base sdb skip limit sort_by sort_order
        sneaker_brand filter_price_min filter_price_max (Some [])
     = read_sneakers contains base sdb skip limit sort_by sort_order
           sneaker_brand filter_price_min filter_price_max None"
  by (simp_all add: read_sneakers_def filter_sneakers_def truthy_str_def truthy_int_def)

lemma read_sneakers_tablename:
  "read_sneakers contains base sdb skip limit (Some ''__tablename__'') sort_order
        sneaker_brand filter_price_min filter_price_max search
     = Inl AttributeError"
  by (simp add: read_sneakers_def sort_sneakers_def getattr_Sneaker_def)

lemma read_sneakers_unknown_sort:
  "getattr_Sneaker base n = None \<Longrightarrow>
     read_sneakers contains base sdb skip limit (Some n) sort_order
           sneaker_brand filter_price_min filter_price_max search
       = read_sneakers contains base sdb skip limit None sort_order
             sneaker_brand filter_price_min filter_price_max search"
  by (simp add: read_sneakers_def sort_sneakers_def)







lemma read_cars_falsy:
  "read_cars contains base cdb skip limit sort_by sort_order (Some []) filter_year search
     = read_cars contains base cdb skip limit sort_by sort_order None filter_year search"
  "read_cars contains base cdb skip limit sort_by sort_order filter_make (Some 0) search
     = read_cars contains base cdb skip limit sort_by sort_order filter_make None search"
  "read_cars contains base cdb skip limit sort_by sort_order filter_make filter_year (Some [])
     = read_cars contains base cdb skip limit sort_by sort_order filter_make filter_year None"
  by (simp_all add: read_cars_def filter_cars_def truthy_str_def truthy_int_def)

lemma read_cars_tablename:
  "read_cars contains base cdb skip limit (Some ''__tablename__'') sort_order
        filter_make filter_year search
     = Inl AttributeError"
  by (simp add: read_cars_def sort_cars_def getattr_Car_def)

lemma read_cars_unknown_sort:
  "getattr_Car base n = None \<Longrightarrow>
     read_cars contains base cdb skip limit (Some n) sort_order filter_make filter_year search
       = read_cars contains base cdb skip limit None sort_order filter_make filter_year search"
  by (simp add: read_cars_def sort_cars_def)



text \<open>
  C10. In each of the three services, for every table and every other parameter, a list
  request with an empty string as brand, make or search text, or with 0 as volume, year,
  minimum price or maximum price, returns what the request without that parameter returns.
\<close>

theorem falsy_filter_is_absent:
  "read_energy_drinks contains base edb skip limit sort_by sort_order (Some []) filter_volume search
     = read_energy_drinks contains base edb skip limit sort_by sort_order None filter_volume search
   \<and> read_energy_drinks contains base edb skip limit sort_by sort_order
         filter_brand (Some 0) search
     = read_energy_drinks contains base edb skip limit sort_by sort_order filter_brand None search
   \<and> read_energy_drinks contains base edb skip limit sort_by sort_order
         filter_brand filter_volume (Some [])
     = read_energy_drinks contains base edb skip limit sort_by sort_order
           filter_brand filter_volume None
   \<and> read_sneakers contains base sdb skip limit sort_by sort_order
         (Some []) filter_price_min filter_price_max search
     = read_sneakers contains base sdb skip limit sort_by sort_order
           None filter_price_min filter_price_max search
   \<and> read_sneakers contains base sdb skip limit sort_by sort_order
         sneaker_brand (Some 0) filter_price_max search
     = read_sneakers contains base sdb skip limit sort_by sort_order
           sneaker_brand None filter_price_max search
   \<and> read_sneakers contains base sdb skip limit sort_by sort_order
         sneaker_brand filter_price_min (Some 0) search
     = read_sneakers contains base sdb skip limit sort_by sort_order
           sneaker_brand filter_price_min None search
   \<and> read_sneakers contains base sdb skip limit sort_by sort_order
         sneaker_brand filter_price_min filter_price_max (Some [])
     = read_sneakers contains base sdb skip limit sort_by sort_order
           sneaker_brand filter_price_min filter_price_max None
   \<and> read_cars contains base cdb skip limit sort_by sort_order (Some []) filter_year search
     = read_cars contains base cdb skip limit sort_by sort_order None filter_year search
   \<and> read_cars contains base cdb skip limit sort_by sort_order filter_make (Some 0) search
     = read_cars contains base cdb skip limit sort_by sort_order filter_make None search
   \<and> read_cars contains base cdb skip limit sort_by sort_order
         filter_make filter_year (Some [])
     = read_cars contains base cdb skip limit sort_by sort_order filter_make filter_year None"
  by (simp add: read_energy_drinks_falsy read_sneakers_falsy read_cars_falsy)

text \<open>
  C4. \<^verbatim>\<open>__tablename__\<close> is an attribute of each model class and no column: a list request
  with \<^verbatim>\<open>sort_by=__tablename__\<close> raises \<^verbatim>\<open>AttributeError\<close>, in every table and with every
  other parameter, where a request without \<^verbatim>\<open>sort_by\<close> returns a result. A name under which
  the class has no attribute is ignored (lemmas \<open>read_energy_drinks_unknown_sort\<close>,
  \<open>read_sneakers_unknown_sort\<close>, \<open>read_cars_unknown_sort\<close>).
\<close>

theorem sort_by_tablename_raises:
  "read_energy_drinks contains base edb skip limit (Some ''__tablename__'') sort_order
        filter_brand filter_volume search
       = Inl AttributeError
   \<and> read_sneakers contains base sdb skip limit (Some ''__tablename__'') sort_order
         sneaker_brand filter_price_min filter_price_max search
       = Inl AttributeError
   \<and> read_cars contains base cdb skip limit (Some ''__tablename__'') sort_order
         filter_make filter_year search
       = Inl AttributeError"
  by (simp add: read_energy_drinks_tablename read_sneakers_tablename read_cars_tablename)





section \<open>Invariants of the tables\<close>










text \<open>
  C6. The rating of a sneaker is documented as lying between 0 and 5 and \<open>rate_sneaker\<close>
  refuses any other value, but \<open>update_sneaker\<close> stores whatever rating the request
  supplies: after a create and an update with rating 7 the table holds the rating 7, which
  \<open>rate_sneaker\<close> refuses for the same sneaker.
\<close>

theorem update_stores_rating_out_of_range:
  "serve_sneakers
       [CreateSneaker \<lparr>snc_brand = ''A'', snc_model = ''B'', snc_price = 10\<rparr>,
        UpdateSneaker 1 \<lparr>snu_brand = Unset, snu_model = Unset, snu_price = Unset,
                          snu_rating = Supplied (Some 7)\<rparr>]
     = [\<lparr>sn_id = 1, sn_brand = Some ''A'', sn_model = Some ''B'', sn_price = Some 10,
          sn_rating = Some 7\<rparr>]
   \<and> \<not> rating_in_range (serve_sneakers
       [CreateSneaker \<lparr>snc_brand = ''A'', snc_model = ''B'', snc_price = 10\<rparr>,
        UpdateSneaker 1 \<lparr>snu_brand = Unset, snu_model = Unset, snu_price = Unset,
                          snu_rating = Supplied (Some 7)\<rparr>])
   \<and> rate_sneaker
       [\<lparr>sn_id = 1, sn_brand = Some ''A'', sn_model = Some ''B'', sn_price = Some 10,
          sn_rating = Some 0\<rparr>] 1 7
     = ([\<lparr>sn_id = 1, sn_brand = Some ''A'', sn_model = Some ''B'', sn_price = Some 10,
           sn_rating = Some 0\<rparr>], Inl RequestValidationError)"
  by (simp add: serve_sneakers_def create_sneaker_def update_sneaker_def next_id_def Let_def
      rating_in_range_def first_with_id_def commit_row_def setattr_field_def rate_sneaker_def)


end
